theory Spec2Isabelle
  imports Complex_Main "HOL-Library.AList"
begin

section \<open>The get-time agent: data model\<close>

text \<open>
  The source is \<^verbatim>\<open>get_time_agent.py\<close>. Its state is a Python dictionary (a
  \<^verbatim>\<open>TypedDict\<close> is a plain \<^verbatim>\<open>dict\<close> at run time), so it is modelled as an
  association list in insertion order: reading a missing key raises \<^verbatim>\<open>KeyError\<close>,
  a store replaces the value in place or appends the key. Exceptions are values of
  \<open>py_error\<close>; a function that may raise returns \<open>py_error + 'a\<close>.
\<close>

datatype py_error =
    KeyError string
  | TypeError
  | AttributeError
  | CollaboratorError string
  | GraphConfigurationError
  | BranchEvaluationError string

text \<open>A \<^verbatim>\<open>datetime.datetime\<close> value; \<open>tz_offset\<close> is the offset of an aware value in seconds.\<close>

record datetime =
  year :: int
  month :: int
  day :: int
  hour :: int
  minute :: int
  second :: int
  microsecond :: int
  tz_offset :: "int option"

datatype pyval =
    PNone
  | PBool bool
  | PStr string
  | PDatetime datetime
  | PDict "(string \<times> pyval) list"

type_synonym AgentState = "(string \<times> pyval) list"

text \<open>The keys declared by \<^verbatim>\<open>class AgentState(TypedDict)\<close>.\<close>

definition AgentState_schema :: "string set" where
  "AgentState_schema =
     {''get_time_prompt'', ''timezone'', ''time_data'', ''utc_offset'',
      ''month_name'', ''month_emoji'', ''final_answer''}"

text \<open>\<^verbatim>\<open>d[k]\<close> and \<^verbatim>\<open>d[k] = v\<close> on a dictionary.\<close>

definition getitem :: "(string \<times> 'v) list \<Rightarrow> string \<Rightarrow> py_error + 'v" where
  "getitem d k = (case map_of d k of None \<Rightarrow> Inl (KeyError k) | Some v \<Rightarrow> Inr v)"

definition setitem :: "(string \<times> 'v) list \<Rightarrow> string \<Rightarrow> 'v \<Rightarrow> (string \<times> 'v) list" where
  "setitem d k v = AList.update k v d"

text \<open>
  \<^verbatim>\<open>obj[k] = v\<close> on an arbitrary value: only a dictionary supports item assignment,
  every other value of the model (\<^verbatim>\<open>None\<close>, a bool, a str, a datetime) raises \<^verbatim>\<open>TypeError\<close>.
\<close>

fun setitem_obj :: "pyval \<Rightarrow> string \<Rightarrow> pyval \<Rightarrow> py_error + pyval" where
  "setitem_obj (PDict d) k v = Inr (PDict (setitem d k v))"
| "setitem_obj _ k v = Inl TypeError"

text \<open>\<^verbatim>\<open>obj.hour\<close>: only a datetime has the attribute.\<close>

fun hour_attr :: "pyval \<Rightarrow> py_error + int" where
  "hour_attr (PDatetime d) = Inr (hour d)"
| "hour_attr _ = Inl AttributeError"

subsection \<open>Output schemas and external collaborators\<close>

record TimeOutput =
  time_data_output :: datetime
  utc_offset_output :: string

record MonthNameOutput =
  month_name_output :: string
  month_name_output_emoji :: string

text \<open>A decoded JSON document, as \<^verbatim>\<open>json.loads\<close> returns it.\<close>

datatype json =
    JNull
  | JBool bool
  | JInt int
  | JFloat real
  | JStr string
  | JList "json list"
  | JObject "(string \<times> json) list"

record http_response =
  status :: nat
  data :: string

text \<open>
  What the program calls and does not define: \<^verbatim>\<open>urllib3.request("GET", url)\<close>,
  \<^verbatim>\<open>json.loads\<close>, the two \<^verbatim>\<open>Agent.run_sync\<close> calls (the first agent is given the
  tool registered with \<^verbatim>\<open>@time_agent.tool\<close>, its prompt and its \<^verbatim>\<open>deps\<close>), and the
  formatting of a value inside an f-string. Each may raise. They are parameters
  of the model.
\<close>

record collaborators =
  urllib3_request :: "string \<Rightarrow> py_error + http_response"
  json_loads :: "string \<Rightarrow> py_error + json"
  time_agent_run_sync ::
    "(pyval \<Rightarrow> py_error + json) \<Rightarrow> pyval \<Rightarrow> pyval \<Rightarrow> py_error + TimeOutput"
  month_name_agent_run_sync :: "string \<Rightarrow> py_error + MonthNameOutput"
  py_format :: "pyval \<Rightarrow> string"


section \<open>The tool and the nodes\<close>

text \<open>\<^verbatim>\<open>json.loads(response.data)["datetime"]\<close>: subscripting a decoded document by a string.\<close>

fun json_getitem :: "json \<Rightarrow> string \<Rightarrow> py_error + json" where
  "json_getitem (JObject kvs) k = getitem kvs k"
| "json_getitem _ k = Inl TypeError"

definition get_time :: "collaborators \<Rightarrow> pyval \<Rightarrow> py_error + json" where
  "get_time c timezone_input =
     (let url = ''http://worldtimeapi.org/api/timezone/'' @ py_format c timezone_input in
      case urllib3_request c url of
        Inl e \<Rightarrow> Inl e
      | Inr response \<Rightarrow>
          (case json_loads c (data response) of
             Inl e \<Rightarrow> Inl e
           | Inr doc \<Rightarrow> json_getitem doc ''datetime''))"

definition get_time_node :: "collaborators \<Rightarrow> AgentState \<Rightarrow> py_error + AgentState" where
  "get_time_node c state =
     (case getitem state ''get_time_prompt'' of
        Inl e \<Rightarrow> Inl e
      | Inr prompt \<Rightarrow>
     (case getitem state ''timezone'' of
        Inl e \<Rightarrow> Inl e
      | Inr tz \<Rightarrow>
     (case time_agent_run_sync c (get_time c) prompt tz of
        Inl e \<Rightarrow> Inl e
      | Inr out \<Rightarrow>
          Inr (setitem (setitem state ''time_data'' (PDatetime (time_data_output out)))
                 ''utc_offset'' (PStr (utc_offset_output out))))))"

definition get_month_name_node :: "collaborators \<Rightarrow> AgentState \<Rightarrow> py_error + AgentState" where
  "get_month_name_node c state =
     (case getitem state ''time_data'' of
        Inl e \<Rightarrow> Inl e
      | Inr td \<Rightarrow>
     (case month_name_agent_run_sync c
             (''What month is it according to this datetime object?: '' @ py_format c td) of
        Inl e \<Rightarrow> Inl e
      | Inr out \<Rightarrow>
          Inr (setitem (setitem state ''month_name'' (PStr (month_name_output out)))
                 ''month_emoji'' (PStr (month_name_output_emoji out)))))"

definition format_response :: "collaborators \<Rightarrow> AgentState \<Rightarrow> py_error + AgentState" where
  "format_response c state =
     (case getitem state ''time_data'' of Inl e \<Rightarrow> Inl e | Inr td \<Rightarrow>
     (case getitem state ''timezone'' of Inl e \<Rightarrow> Inl e | Inr tz \<Rightarrow>
     (case getitem state ''utc_offset'' of Inl e \<Rightarrow> Inl e | Inr uo \<Rightarrow>
     (case getitem state ''month_name'' of Inl e \<Rightarrow> Inl e | Inr mn \<Rightarrow>
     (case getitem state ''month_emoji'' of Inl e \<Rightarrow> Inl e | Inr me \<Rightarrow>
        Inr (setitem state ''final_answer''
               (PDict [(''current_time'', PStr (py_format c td)),
                       (''timezone'', PStr (py_format c tz)),
                       (''utc_offset'', uo),
                       (''month_name'', mn),
                       (''month_emoji'', me)])))))))"

text \<open>
  \<^verbatim>\<open>state["final_answer"][k] = b\<close>: the dictionary held in the slot is mutated in
  place, so the slot holds the updated dictionary afterwards.
\<close>

definition set_final_answer_item :: "AgentState \<Rightarrow> string \<Rightarrow> pyval \<Rightarrow> py_error + AgentState" where
  "set_final_answer_item state k v =
     (case getitem state ''final_answer'' of
        Inl e \<Rightarrow> Inl e
      | Inr fa \<Rightarrow>
          (case setitem_obj fa k v of
             Inl e \<Rightarrow> Inl e
           | Inr fa' \<Rightarrow> Inr (setitem state ''final_answer'' fa')))"

definition add_AM :: "AgentState \<Rightarrow> py_error + AgentState" where
  "add_AM state =
     (case set_final_answer_item state ''AM'' (PBool True) of
        Inl e \<Rightarrow> Inl e
      | Inr state' \<Rightarrow> set_final_answer_item state' ''PM'' (PBool False))"

definition add_PM :: "AgentState \<Rightarrow> py_error + AgentState" where
  "add_PM state =
     (case set_final_answer_item state ''AM'' (PBool False) of
        Inl e \<Rightarrow> Inl e
      | Inr state' \<Rightarrow> set_final_answer_item state' ''PM'' (PBool True))"

definition is_AM_or_PM :: "AgentState \<Rightarrow> py_error + string" where
  "is_AM_or_PM state =
     (case getitem state ''time_data'' of
        Inl e \<Rightarrow> Inl e
      | Inr td \<Rightarrow>
          (case hour_attr td of
             Inl e \<Rightarrow> Inl e
           | Inr h \<Rightarrow> Inr (if h < 12 then ''is_AM'' else ''is_PM'')))"

section \<open>The graph built by \<^verbatim>\<open>main\<close>\<close>

definition START :: string where
  "START = ''__start__''"

definition END :: string where
  "END = ''__end__''"

record Graph =
  nodes :: "(string \<times> (AgentState \<Rightarrow> py_error + AgentState)) list"
  edges :: "(string \<times> string) list"
  conditional_edges :: "(string \<times> (AgentState \<Rightarrow> py_error + string) \<times> string list) list"

definition workflow :: "collaborators \<Rightarrow> Graph" where
  "workflow c =
     \<lparr> nodes =
         [(''get_time'', get_time_node c),
          (''get_month_name'', get_month_name_node c),
          (''format'', format_response c),
          (''is_AM'', add_AM),
          (''is_PM'', add_PM)],
       edges =
         [(START, ''get_time''),
          (''get_time'', ''get_month_name''),
          (''get_month_name'', ''format''),
          (''is_AM'', END),
          (''is_PM'', END)],
       conditional_edges =
         [(''format'', is_AM_or_PM, [''is_AM'', ''is_PM''])] \<rparr>"

definition config :: AgentState where
  "config =
     [(''get_time_prompt'', PStr ''What is the current time?''),
      (''timezone'', PStr ''America/New_York'')]"

subsection \<open>The executor\<close>

datatype run_result = Completed AgentState | Failed py_error string

text \<open>
  Modelled from the spec: the Edge Resolver and the Executor of the workflow engine
  (sections 4.3 and 4.5). \<^verbatim>\<open>main\<close> only builds the graph and calls
  \<^verbatim>\<open>workflow.compile()\<close> and \<^verbatim>\<open>app.invoke(config)\<close>; the engine behind them is not
  part of the source file. After a step the route is its branch, if it owns one
  (the decision function is evaluated on the just-updated state and must return a
  declared label), else its unconditional edge; a step whose edge leads to
  \<open>END\<close>, or that has no outgoing edge, is terminal. A failing step, or a
  failing branch evaluation, ends the run as \<open>Failed\<close> with the step's name. The
  trace lists the steps in the order their execution started. The engine of the
  spec has no bound on the number of transitions, so a run on a cyclic graph need
  not return: the result is an option.
\<close>

definition resolve :: "Graph \<Rightarrow> string \<Rightarrow> AgentState \<Rightarrow> py_error + string" where
  "resolve g s state =
     (case map_of (conditional_edges g) s of
        Some (decide, labels) \<Rightarrow>
          (case decide state of
             Inl e \<Rightarrow> Inl e
           | Inr l \<Rightarrow> if l \<in> set labels then Inr l else Inl (BranchEvaluationError l))
      | None \<Rightarrow>
          (case map_of (edges g) s of
             Some n \<Rightarrow> Inr n
           | None \<Rightarrow> Inr END))"

partial_function (option) running ::
  "Graph \<Rightarrow> string \<Rightarrow> AgentState \<Rightarrow> string list \<Rightarrow> (string list \<times> run_result) option" where
  "running g s state trace =
     (if s = END then Some (trace, Completed state)
      else case map_of (nodes g) s of
        None \<Rightarrow> Some (trace, Failed GraphConfigurationError s)
      | Some step \<Rightarrow>
          (case step state of
             Inl e \<Rightarrow> Some (trace @ [s], Failed e s)
           | Inr state' \<Rightarrow>
               (case resolve g s state' of
                  Inl e \<Rightarrow> Some (trace @ [s], Failed e s)
                | Inr n \<Rightarrow> running g n state' (trace @ [s]))))"

definition invoke :: "Graph \<Rightarrow> AgentState \<Rightarrow> (string list \<times> run_result) option" where
  "invoke g initial_values =
     (case map_of (edges g) START of
        None \<Rightarrow> Some ([], Failed GraphConfigurationError START)
      | Some entry \<Rightarrow> running g entry initial_values [])"


subsection \<open>The run of \<open>workflow\<close>, unfolded\<close>

text \<open>
  What is left of a run of \<open>workflow\<close> after the branch label is known, after
  \<^verbatim>\<open>format\<close> has succeeded, and after \<^verbatim>\<open>get_time\<close> has succeeded. These are
  not in the source: \<open>invoke_workflow\<close> below proves that \<open>invoke\<close> computes them.
\<close>

definition after_branch :: "string \<Rightarrow> AgentState \<Rightarrow> string list \<times> run_result" where
  "after_branch l s3 =
     (case (if l = ''is_AM'' then add_AM s3 else add_PM s3) of
        Inl e \<Rightarrow> ([''get_time'', ''get_month_name'', ''format'', l], Failed e l)
      | Inr s4 \<Rightarrow> ([''get_time'', ''get_month_name'', ''format'', l], Completed s4))"

definition after_format :: "AgentState \<Rightarrow> string list \<times> run_result" where
  "after_format s3 =
     (case is_AM_or_PM s3 of
        Inl e \<Rightarrow> ([''get_time'', ''get_month_name'', ''format''], Failed e ''format'')
      | Inr l \<Rightarrow> after_branch l s3)"

definition after_get_time :: "collaborators \<Rightarrow> AgentState \<Rightarrow> string list \<times> run_result" where
  "after_get_time c s1 =
     (case get_month_name_node c s1 of
        Inl e \<Rightarrow> ([''get_time'', ''get_month_name''], Failed e ''get_month_name'')
      | Inr s2 \<Rightarrow>
          (case format_response c s2 of
             Inl e \<Rightarrow> ([''get_time'', ''get_month_name'', ''format''], Failed e ''format'')
           | Inr s3 \<Rightarrow> after_format s3))"

section \<open>Test doubles for the collaborators\<close>

text \<open>
  Concrete collaborators on which the model is run: the time service answers with
  a document that holds a \<open>datetime\<close> field, the first agent calls its tool once
  and returns a time at the given hour, the second agent names the month.
\<close>

definition stub_datetime :: "int \<Rightarrow> datetime" where
  "stub_datetime h =
     \<lparr> year = 2024, month = 6, day = 1, hour = h, minute = 30, second = 0,
       microsecond = 0, tz_offset = Some (- 14400) \<rparr>"

fun stub_format :: "pyval \<Rightarrow> string" where
  "stub_format (PStr s) = s"
| "stub_format PNone = ''None''"
| "stub_format (PBool b) = (if b then ''True'' else ''False'')"
| "stub_format (PDatetime d) = ''2024-06-01 hh:30:00-04:00''"
| "stub_format (PDict d) = ''{...}''"

definition time_body :: string where
  \<open>time_body = ''{"datetime": "2024-06-01T09:30:00-04:00"}''\<close>

definition error_body :: string where
  \<open>error_body = ''{"error": "unknown location"}''\<close>

definition stub_json_loads :: "string \<Rightarrow> py_error + json" where
  "stub_json_loads s =
     (if s = time_body then Inr (JObject [(''datetime'', JStr ''2024-06-01T09:30:00-04:00'')])
      else if s = error_body then Inr (JObject [(''error'', JStr ''unknown location'')])
      else Inl (CollaboratorError ''JSONDecodeError''))"

definition stub :: "int \<Rightarrow> collaborators" where
  "stub h =
     \<lparr> urllib3_request = (\<lambda>url. Inr \<lparr> status = 200, data = time_body \<rparr>),
       json_loads = stub_json_loads,
       time_agent_run_sync =
         (\<lambda>tool prompt deps.
            case tool deps of
              Inl e \<Rightarrow> Inl e
            | Inr _ \<Rightarrow> Inr \<lparr> time_data_output = stub_datetime h, utc_offset_output = ''-04:00'' \<rparr>),
       month_name_agent_run_sync =
         (\<lambda>prompt. Inr \<lparr> month_name_output = ''June'', month_name_output_emoji = ''sun'' \<rparr>),
       py_format = stub_format \<rparr>"

text \<open>The time service is unreachable: the request raises.\<close>

definition unreachable_stub :: collaborators where
  "unreachable_stub =
     (stub 9) \<lparr> urllib3_request := (\<lambda>url. Inl (CollaboratorError ''MaxRetryError'')) \<rparr>"

text \<open>The model behind the second agent is down: its \<^verbatim>\<open>run_sync\<close> raises.\<close>

definition month_agent_down_stub :: collaborators where
  "month_agent_down_stub =
     (stub 9) \<lparr> month_name_agent_run_sync := (\<lambda>prompt. Inl (CollaboratorError ''ModelHTTPError'')) \<rparr>"




text \<open>The states the three first steps produce from \<open>config\<close> with these collaborators.\<close>

definition stub_state1 :: "int \<Rightarrow> AgentState" where
  "stub_state1 h =
     config @ [(''time_data'', PDatetime (stub_datetime h)), (''utc_offset'', PStr ''-04:00'')]"

definition stub_state2 :: "int \<Rightarrow> AgentState" where
  "stub_state2 h = stub_state1 h @ [(''month_name'', PStr ''June''), (''month_emoji'', PStr ''sun'')]"

definition stub_state3 :: "int \<Rightarrow> AgentState" where
  "stub_state3 h =
     stub_state2 h @
     [(''final_answer'',
       PDict [(''current_time'', PStr ''2024-06-01 hh:30:00-04:00''),
              (''timezone'', PStr ''America/New_York''),
              (''utc_offset'', PStr ''-04:00''),
              (''month_name'', PStr ''June''),
              (''month_emoji'', PStr ''sun'')])]"


definition stub_final :: "int \<Rightarrow> AgentState" where
  "stub_final h =
     stub_state2 h @
     [(''final_answer'',
       PDict [(''current_time'', PStr ''2024-06-01 hh:30:00-04:00''),
              (''timezone'', PStr ''America/New_York''),
              (''utc_offset'', PStr ''-04:00''),
              (''month_name'', PStr ''June''),
              (''month_emoji'', PStr ''sun''),
              (''AM'', PBool (h < 12)),
              (''PM'', PBool (\<not> h < 12))])]"

section \<open>Properties\<close>

lemma map_of_setitem: "map_of (setitem d k v) = (map_of d)(k \<mapsto> v)"
  by (simp add: setitem_def update_conv')

lemma getitem_setitem:
  "getitem (setitem d k v) k' = (if k' = k then Inr v else getitem d k')"
  by (simp add: getitem_def map_of_setitem)

lemma keys_setitem: "fst ` set (setitem d k v) = insert k (fst ` set d)"
  by (simp add: setitem_def dom_update)

lemma running_END: "running g END state trace = Some (trace, Completed state)"
  by (subst running.simps) simp

lemma running_step:
  assumes "s \<noteq> END" and "map_of (nodes g) s = Some step"
  shows "running g s state trace =
     (case step state of
        Inl e \<Rightarrow> Some (trace @ [s], Failed e s)
      | Inr state' \<Rightarrow>
          (case resolve g s state' of
             Inl e \<Rightarrow> Some (trace @ [s], Failed e s)
           | Inr n \<Rightarrow> running g n state' (trace @ [s])))"
  using assms by (subst running.simps) simp

lemma nodes_workflow:
  "map_of (nodes (workflow c)) ''get_time'' = Some (get_time_node c)"
  "map_of (nodes (workflow c)) ''get_month_name'' = Some (get_month_name_node c)"
  "map_of (nodes (workflow c)) ''format'' = Some (format_response c)"
  "map_of (nodes (workflow c)) ''is_AM'' = Some add_AM"
  "map_of (nodes (workflow c)) ''is_PM'' = Some add_PM"
  by (simp_all add: workflow_def)

lemma resolve_workflow:
  "resolve (workflow c) ''get_time'' s = Inr ''get_month_name''"
  "resolve (workflow c) ''get_month_name'' s = Inr ''format''"
  "resolve (workflow c) ''is_AM'' s = Inr END"
  "resolve (workflow c) ''is_PM'' s = Inr END"
  by (simp_all add: resolve_def workflow_def START_def)

lemma is_AM_or_PM_label: "is_AM_or_PM s = Inr l \<Longrightarrow> l = ''is_AM'' \<or> l = ''is_PM''"
  by (auto simp: is_AM_or_PM_def split: sum.splits if_splits)

lemma resolve_format: "resolve (workflow c) ''format'' s = is_AM_or_PM s"
proof (cases "is_AM_or_PM s")
  case (Inl e)
  then show ?thesis by (simp add: resolve_def workflow_def)
next
  case (Inr l)
  with is_AM_or_PM_label[OF Inr] show ?thesis
    by (auto simp add: resolve_def workflow_def)
qed

lemma running_is_AM:
  "running (workflow c) ''is_AM'' s3 [''get_time'', ''get_month_name'', ''format'']
     = Some (after_branch ''is_AM'' s3)"
  by (simp add: running_step[OF _ nodes_workflow(4)] END_def[of] resolve_workflow
      running_END[unfolded END_def] after_branch_def split: sum.splits)

lemma running_is_PM:
  "running (workflow c) ''is_PM'' s3 [''get_time'', ''get_month_name'', ''format'']
     = Some (after_branch ''is_PM'' s3)"
  by (simp add: running_step[OF _ nodes_workflow(5)] END_def[of] resolve_workflow
      running_END[unfolded END_def] after_branch_def split: sum.splits)

lemma running_format:
  "running (workflow c) ''format'' s2 [''get_time'', ''get_month_name''] =
    Some (case format_response c s2 of
        Inl e \<Rightarrow> ([''get_time'', ''get_month_name'', ''format''], Failed e ''format'')
      | Inr s3 \<Rightarrow> after_format s3)"
proof (cases "format_response c s2")
  case (Inl e)
  then show ?thesis
    by (simp add: running_step[OF _ nodes_workflow(3)] END_def)
next
  case (Inr s3)
  show ?thesis
  proof (cases "is_AM_or_PM s3")
    case (Inl e)
    then show ?thesis using Inr
      by (simp add: running_step[OF _ nodes_workflow(3)] END_def resolve_format after_format_def)
  next
    case l: (Inr l)
    from is_AM_or_PM_label[OF l] show ?thesis using Inr l
      by (auto simp add: running_step[OF _ nodes_workflow(3)] END_def resolve_format
          after_format_def running_is_AM running_is_PM)
  qed
qed

lemma invoke_workflow:
  "invoke (workflow c) s0 =
     Some (case get_time_node c s0 of
             Inl e \<Rightarrow> ([''get_time''], Failed e ''get_time'')
           | Inr s1 \<Rightarrow> after_get_time c s1)"
proof -
  have entry: "map_of (edges (workflow c)) START = Some ''get_time''"
    by (simp add: workflow_def)
  have gm: "running (workflow c) ''get_month_name'' s1 [''get_time''] = Some (after_get_time c s1)" for s1
    by (simp add: running_step[OF _ nodes_workflow(2)] END_def resolve_workflow
        running_format after_get_time_def split: sum.splits)
  show ?thesis
    by (simp add: invoke_def entry running_step[OF _ nodes_workflow(1)] END_def
        resolve_workflow gm split: sum.splits)
qed

lemma get_time_node_Inr:
  assumes "get_time_node c s = Inr s'"
  shows "\<exists>d uo. s' = setitem (setitem s ''time_data'' (PDatetime d)) ''utc_offset'' (PStr uo)"
  using assms by (auto simp: get_time_node_def split: sum.splits)

lemma get_month_name_node_Inr:
  assumes "get_month_name_node c s = Inr s'"
  shows "\<exists>mn me. s' = setitem (setitem s ''month_name'' (PStr mn)) ''month_emoji'' (PStr me)"
  using assms by (auto simp: get_month_name_node_def split: sum.splits)

lemma format_response_Inr:
  assumes "format_response c s = Inr s'"
  shows "\<exists>fa. s' = setitem s ''final_answer'' (PDict fa)"
  using assms by (auto simp: format_response_def split: sum.splits)

lemma setitem_obj_Inr:
  assumes "setitem_obj v k x = Inr v'"
  shows "\<exists>d. v = PDict d \<and> v' = PDict (setitem d k x)"
  using assms by (cases v) auto

lemma set_final_answer_item_Inr:
  assumes "set_final_answer_item s k x = Inr s'"
  shows "\<exists>d. map_of s ''final_answer'' = Some (PDict d)
             \<and> s' = setitem s ''final_answer'' (PDict (setitem d k x))"
  using assms
  by (auto simp: set_final_answer_item_def getitem_def split: sum.splits option.splits
      dest!: setitem_obj_Inr)

lemma set_final_answer_item_PDict:
  assumes "map_of s ''final_answer'' = Some (PDict d)"
  shows "set_final_answer_item s k x = Inr (setitem s ''final_answer'' (PDict (setitem d k x)))"
  using assms by (simp add: set_final_answer_item_def getitem_def)

lemma add_flags_PDict:
  assumes "map_of s ''final_answer'' = Some (PDict d)"
  shows "add_AM s = Inr (setitem (setitem s ''final_answer'' (PDict (setitem d ''AM'' (PBool True))))
            ''final_answer'' (PDict (setitem (setitem d ''AM'' (PBool True)) ''PM'' (PBool False))))"
    and "add_PM s = Inr (setitem (setitem s ''final_answer'' (PDict (setitem d ''AM'' (PBool False))))
            ''final_answer'' (PDict (setitem (setitem d ''AM'' (PBool False)) ''PM'' (PBool True))))"
  using assms
  by (simp_all add: add_AM_def add_PM_def set_final_answer_item_PDict map_of_setitem)

lemma add_AM_Inr:
  assumes "add_AM s = Inr s'"
  shows "\<exists>d. map_of s ''final_answer'' = Some (PDict d)"
  using assms
  by (auto simp: add_AM_def split: sum.splits dest!: set_final_answer_item_Inr)

lemma add_PM_Inr:
  assumes "add_PM s = Inr s'"
  shows "\<exists>d. map_of s ''final_answer'' = Some (PDict d)"
  using assms
  by (auto simp: add_PM_def split: sum.splits dest!: set_final_answer_item_Inr)


lemma is_AM_or_PM_datetime:
  assumes "map_of s ''time_data'' = Some (PDatetime d)"
  shows "is_AM_or_PM s = Inr (if hour d < 12 then ''is_AM'' else ''is_PM'')"
  using assms by (simp add: is_AM_or_PM_def getitem_def)

lemma reach_branch:
  assumes "get_time_node c s0 = Inr s1"
    and "get_month_name_node c s1 = Inr s2"
    and "format_response c s2 = Inr s3"
  shows "\<exists>d fa. map_of s3 ''time_data'' = Some (PDatetime d)
                \<and> map_of s3 ''final_answer'' = Some (PDict fa)"
proof -
  from get_time_node_Inr[OF assms(1)] obtain d uo
    where s1: "s1 = setitem (setitem s0 ''time_data'' (PDatetime d)) ''utc_offset'' (PStr uo)"
    by blast
  from get_month_name_node_Inr[OF assms(2)] obtain mn me
    where s2: "s2 = setitem (setitem s1 ''month_name'' (PStr mn)) ''month_emoji'' (PStr me)"
    by blast
  from format_response_Inr[OF assms(3)] obtain fa
    where s3: "s3 = setitem s2 ''final_answer'' (PDict fa)"
    by blast
  have "map_of s3 ''time_data'' = Some (PDatetime d)"
    by (simp add: s1 s2 s3 map_of_setitem)
  moreover have "map_of s3 ''final_answer'' = Some (PDict fa)"
    by (simp add: s3 map_of_setitem)
  ultimately show ?thesis by blast
qed

lemma after_branch_PDict:
  assumes "map_of s3 ''final_answer'' = Some (PDict d)"
  shows "\<exists>sf fa. after_branch ''is_AM'' s3
                    = ([''get_time'', ''get_month_name'', ''format'', ''is_AM''], Completed sf)
                \<and> map_of sf ''final_answer'' = Some (PDict fa)
                \<and> map_of fa ''AM'' = Some (PBool True) \<and> map_of fa ''PM'' = Some (PBool False)"
    and "\<exists>sf fa. after_branch ''is_PM'' s3
                    = ([''get_time'', ''get_month_name'', ''format'', ''is_PM''], Completed sf)
                \<and> map_of sf ''final_answer'' = Some (PDict fa)
                \<and> map_of fa ''AM'' = Some (PBool False) \<and> map_of fa ''PM'' = Some (PBool True)"
  by (simp_all add: after_branch_def add_flags_PDict[OF assms] map_of_setitem)

lemma stub_steps:
  "get_time_node (stub h) config = Inr (stub_state1 h)"
  "get_month_name_node (stub h) (stub_state1 h) = Inr (stub_state2 h)"
  "format_response (stub h) (stub_state2 h) = Inr (stub_state3 h)"
  by (simp_all add: get_time_node_def get_month_name_node_def format_response_def get_time_def
      stub_def stub_json_loads_def config_def getitem_def setitem_def
      stub_state1_def stub_state2_def stub_state3_def)

lemma stub_state3_time_data:
  "map_of (stub_state3 h) ''time_data'' = Some (PDatetime (stub_datetime h))"
  by (simp add: stub_state3_def stub_state2_def stub_state1_def config_def)

lemma invoke_workflow_outcome:
  assumes "invoke (workflow c) s0 = Some (tr, r)"
  shows "(\<exists>e. get_time_node c s0 = Inl e \<and> tr = [''get_time''] \<and> r = Failed e ''get_time'')
       \<or> (\<exists>s1 e. get_time_node c s0 = Inr s1 \<and> get_month_name_node c s1 = Inl e
              \<and> tr = [''get_time'', ''get_month_name''] \<and> r = Failed e ''get_month_name'')
       \<or> (\<exists>s1 s2 e. get_time_node c s0 = Inr s1 \<and> get_month_name_node c s1 = Inr s2
              \<and> format_response c s2 = Inl e
              \<and> tr = [''get_time'', ''get_month_name'', ''format''] \<and> r = Failed e ''format'')
       \<or> (\<exists>s1 s2 s3 sf. get_time_node c s0 = Inr s1 \<and> get_month_name_node c s1 = Inr s2
              \<and> format_response c s2 = Inr s3 \<and> is_AM_or_PM s3 = Inr ''is_AM''
              \<and> add_AM s3 = Inr sf
              \<and> tr = [''get_time'', ''get_month_name'', ''format'', ''is_AM''] \<and> r = Completed sf)
       \<or> (\<exists>s1 s2 s3 sf. get_time_node c s0 = Inr s1 \<and> get_month_name_node c s1 = Inr s2
              \<and> format_response c s2 = Inr s3 \<and> is_AM_or_PM s3 = Inr ''is_PM''
              \<and> add_PM s3 = Inr sf
              \<and> tr = [''get_time'', ''get_month_name'', ''format'', ''is_PM''] \<and> r = Completed sf)"
proof (cases "get_time_node c s0")
  case (Inl e)
  with assms show ?thesis by (simp add: invoke_workflow)
next
  case s1: (Inr s1)
  show ?thesis
  proof (cases "get_month_name_node c s1")
    case (Inl e)
    with assms s1 show ?thesis by (simp add: invoke_workflow after_get_time_def)
  next
    case s2: (Inr s2)
    show ?thesis
    proof (cases "format_response c s2")
      case (Inl e)
      with assms s1 s2 show ?thesis by (simp add: invoke_workflow after_get_time_def)
    next
      case s3: (Inr s3)
      from reach_branch[OF s1 s2 s3] obtain d fa
        where td: "map_of s3 ''time_data'' = Some (PDatetime d)"
          and fa: "map_of s3 ''final_answer'' = Some (PDict fa)"
        by blast
      have res: "(tr, r) = after_format s3"
        using assms s1 s2 s3 by (simp add: invoke_workflow after_get_time_def)
      show ?thesis
      proof (cases "hour d < 12")
        case True
        then have "is_AM_or_PM s3 = Inr ''is_AM''"
          by (simp add: is_AM_or_PM_datetime[OF td])
        with res s1 s2 s3 show ?thesis
          by (simp add: after_format_def after_branch_def add_flags_PDict(1)[OF fa])
      next
        case False
        then have "is_AM_or_PM s3 = Inr ''is_PM''"
          by (simp add: is_AM_or_PM_datetime[OF td])
        with res s1 s2 s3 show ?thesis
          by (simp add: after_format_def after_branch_def add_flags_PDict(2)[OF fa])
      qed
    qed
  qed
qed

lemma stub_state3_final_answer:
  "map_of (stub_state3 h) ''final_answer'' =
      Some (PDict [(''current_time'', PStr ''2024-06-01 hh:30:00-04:00''),
              (''timezone'', PStr ''America/New_York''),
              (''utc_offset'', PStr ''-04:00''),
              (''month_name'', PStr ''June''),
              (''month_emoji'', PStr ''sun'')])"
  by (simp add: stub_state3_def stub_state2_def stub_state1_def config_def)

lemma stub_add_flags:
  "h < 12 \<Longrightarrow> add_AM (stub_state3 h) = Inr (stub_final h)"
  "\<not> h < 12 \<Longrightarrow> add_PM (stub_state3 h) = Inr (stub_final h)"
  by (simp_all add: add_flags_PDict[OF stub_state3_final_answer] stub_final_def)
     (simp_all add: setitem_def stub_state3_def stub_state2_def stub_state1_def config_def)

lemma stub_decision:
  "is_AM_or_PM (stub_state3 h) = Inr (if h < 12 then ''is_AM'' else ''is_PM'')"
  by (simp add: is_AM_or_PM_datetime[OF stub_state3_time_data] stub_datetime_def)

lemma stub_invoke:
  "invoke (workflow (stub h)) config =
     Some ([''get_time'', ''get_month_name'', ''format'', if h < 12 then ''is_AM'' else ''is_PM''],
           Completed (stub_final h))"
  using stub_add_flags[of h]
  by (simp add: invoke_workflow stub_steps after_get_time_def after_format_def stub_decision
      after_branch_def)

lemma unreachable_get_time_node:
  "get_time_node unreachable_stub config = Inl (CollaboratorError ''MaxRetryError'')"
  by (simp add: get_time_node_def get_time_def unreachable_stub_def stub_def config_def
      getitem_def)

text \<open>
  C1. In a run that reaches the branch (the three first steps have succeeded), the
  state the decision is evaluated on holds a datetime in \<open>time_data\<close>. If its hour
  is strictly below 12 the decision is \<open>is_AM\<close>, the run completes through the step
  \<open>is_AM\<close> and the final answer has \<open>AM = True\<close>, \<open>PM = False\<close>; if its hour is 12 or
  more (12 itself included) the decision is \<open>is_PM\<close>, the run completes through
  \<open>is_PM\<close> and the final answer has \<open>AM = False\<close>, \<open>PM = True\<close>.
\<close>

theorem am_pm_boundary:
  assumes "get_time_node c s0 = Inr s1"
    and "get_month_name_node c s1 = Inr s2"
    and "format_response c s2 = Inr s3"
  shows "\<exists>d. map_of s3 ''time_data'' = Some (PDatetime d) \<and>
     (hour d < 12 \<longrightarrow>
        is_AM_or_PM s3 = Inr ''is_AM'' \<and>
        (\<exists>sf fa. invoke (workflow c) s0
                    = Some ([''get_time'', ''get_month_name'', ''format'', ''is_AM''], Completed sf)
                \<and> map_of sf ''final_answer'' = Some (PDict fa)
                \<and> map_of fa ''AM'' = Some (PBool True)
                \<and> map_of fa ''PM'' = Some (PBool False))) \<and>
     (12 \<le> hour d \<longrightarrow>
        is_AM_or_PM s3 = Inr ''is_PM'' \<and>
        (\<exists>sf fa. invoke (workflow c) s0
                    = Some ([''get_time'', ''get_month_name'', ''format'', ''is_PM''], Completed sf)
                \<and> map_of sf ''final_answer'' = Some (PDict fa)
                \<and> map_of fa ''AM'' = Some (PBool False)
                \<and> map_of fa ''PM'' = Some (PBool True)))"
proof -
  from reach_branch[OF assms] obtain d fa
    where td: "map_of s3 ''time_data'' = Some (PDatetime d)"
      and fa: "map_of s3 ''final_answer'' = Some (PDict fa)"
    by blast
  have run: "invoke (workflow c) s0 = Some (after_format s3)"
    by (simp add: invoke_workflow after_get_time_def assms)
  have am: "hour d < 12 \<Longrightarrow> after_format s3 = after_branch ''is_AM'' s3"
    by (simp add: after_format_def is_AM_or_PM_datetime[OF td])
  have pm: "12 \<le> hour d \<Longrightarrow> after_format s3 = after_branch ''is_PM'' s3"
    by (simp add: after_format_def is_AM_or_PM_datetime[OF td])
  show ?thesis
    using td after_branch_PDict[OF fa] am pm
    by (simp add: run is_AM_or_PM_datetime[OF td])
qed


theorem am_pm_boundary_witness:
  "is_AM_or_PM (stub_state3 12) = Inr ''is_PM'' \<and>
   (\<exists>sf fa. invoke (workflow (stub 12)) config
               = Some ([''get_time'', ''get_month_name'', ''format'', ''is_PM''], Completed sf)
           \<and> map_of sf ''final_answer'' = Some (PDict fa)
           \<and> map_of fa ''AM'' = Some (PBool False)
           \<and> map_of fa ''PM'' = Some (PBool True)) \<and>
   is_AM_or_PM (stub_state3 9) = Inr ''is_AM'' \<and>
   (\<exists>sf fa. invoke (workflow (stub 9)) config
               = Some ([''get_time'', ''get_month_name'', ''format'', ''is_AM''], Completed sf)
           \<and> map_of sf ''final_answer'' = Some (PDict fa)
           \<and> map_of fa ''AM'' = Some (PBool True)
           \<and> map_of fa ''PM'' = Some (PBool False))"
  using am_pm_boundary[OF stub_steps, of 12] am_pm_boundary[OF stub_steps, of 9]
  by (simp add: stub_state3_time_data stub_datetime_def)



lemma get_time_node_timezone:
  assumes "get_time_node c s0 = Inr s1"
  shows "\<exists>tz. map_of s0 ''timezone'' = Some tz"
  using assms by (auto simp: get_time_node_def getitem_def split: sum.splits option.splits)

lemma format_response_reached:
  assumes "get_time_node c s0 = Inr s1" and "get_month_name_node c s1 = Inr s2"
  shows "\<exists>s3. format_response c s2 = Inr s3"
proof -
  from get_time_node_timezone[OF assms(1)] obtain tz
    where tz: "map_of s0 ''timezone'' = Some tz" by blast
  from get_time_node_Inr[OF assms(1)] obtain d uo
    where s1: "s1 = setitem (setitem s0 ''time_data'' (PDatetime d)) ''utc_offset'' (PStr uo)"
    by blast
  from get_month_name_node_Inr[OF assms(2)] obtain mn me
    where s2: "s2 = setitem (setitem s1 ''month_name'' (PStr mn)) ''month_emoji'' (PStr me)"
    by blast
  show ?thesis
    by (simp add: format_response_def getitem_def s1 s2 map_of_setitem tz)
qed

lemma month_agent_down_steps:
  "get_time_node month_agent_down_stub config = Inr (stub_state1 9)"
  "get_month_name_node month_agent_down_stub (stub_state1 9)
     = Inl (CollaboratorError ''ModelHTTPError'')"
  by (simp_all add: get_time_node_def get_month_name_node_def get_time_def
      month_agent_down_stub_def stub_def stub_json_loads_def config_def getitem_def setitem_def
      stub_state1_def)

lemma format_response_config: "format_response c config = Inl (KeyError ''time_data'')"
  by (simp add: format_response_def config_def getitem_def)

text \<open>
  C2. A step that fails ends the run at once, as \<open>Failed\<close> with that step's name,
  with the failing step last in the trace. For the executor, from any point of a
  run of any graph (first conjunct). For the run of the graph of \<^verbatim>\<open>main\<close>, step by
  step: if \<open>get_time\<close> fails the trace is exactly \<open>[get_time]\<close>, so
  \<open>get_month_name\<close> and \<open>format\<close> never execute and \<open>get_time\<close> is not run again;
  if \<open>get_month_name\<close> fails the trace is \<open>[get_time, get_month_name]\<close>; and the
  same for \<open>format\<close>, for the branch decision (reported under \<open>format\<close>, the step
  that owns the branch), for \<open>is_AM\<close> and for \<open>is_PM\<close>. Conversely a run that
  returns \<open>Completed\<close> is one in which every step it executed succeeded, and in
  every failed run the named step is the last of the trace and no step occurs
  twice in it. (In a run of this graph the steps after \<open>get_month_name\<close> find
  every slot they read, so a failed run is in fact one that failed in \<open>get_time\<close>
  or in \<open>get_month_name\<close>: the last conjunct says so. The first conjunct is the
  one that covers \<open>format\<close>, \<open>is_AM\<close> and \<open>is_PM\<close> on a state where they do fail.)
\<close>

theorem fatal_propagation:
  "(s \<noteq> END \<longrightarrow> map_of (nodes g) s = Some step \<longrightarrow> step state = Inl e \<longrightarrow>
      running g s state trace = Some (trace @ [s], Failed e s))
   \<and> (get_time_node c s0 = Inl e1 \<longrightarrow>
        invoke (workflow c) s0 = Some ([''get_time''], Failed e1 ''get_time''))
   \<and> (get_time_node c s0 = Inr s1 \<longrightarrow> get_month_name_node c s1 = Inl e2 \<longrightarrow>
        invoke (workflow c) s0
          = Some ([''get_time'', ''get_month_name''], Failed e2 ''get_month_name''))
   \<and> (get_time_node c s0 = Inr s1 \<longrightarrow> get_month_name_node c s1 = Inr s2 \<longrightarrow>
        format_response c s2 = Inl e3 \<longrightarrow>
        invoke (workflow c) s0
          = Some ([''get_time'', ''get_month_name'', ''format''], Failed e3 ''format''))
   \<and> (get_time_node c s0 = Inr s1 \<longrightarrow> get_month_name_node c s1 = Inr s2 \<longrightarrow>
        format_response c s2 = Inr s3 \<longrightarrow> is_AM_or_PM s3 = Inl e4 \<longrightarrow>
        invoke (workflow c) s0
          = Some ([''get_time'', ''get_month_name'', ''format''], Failed e4 ''format''))
   \<and> (get_time_node c s0 = Inr s1 \<longrightarrow> get_month_name_node c s1 = Inr s2 \<longrightarrow>
        format_response c s2 = Inr s3 \<longrightarrow> is_AM_or_PM s3 = Inr ''is_AM'' \<longrightarrow>
        add_AM s3 = Inl e5 \<longrightarrow>
        invoke (workflow c) s0
          = Some ([''get_time'', ''get_month_name'', ''format'', ''is_AM''], Failed e5 ''is_AM''))
   \<and> (get_time_node c s0 = Inr s1 \<longrightarrow> get_month_name_node c s1 = Inr s2 \<longrightarrow>
        format_response c s2 = Inr s3 \<longrightarrow> is_AM_or_PM s3 = Inr ''is_PM'' \<longrightarrow>
        add_PM s3 = Inl e6 \<longrightarrow>
        invoke (workflow c) s0
          = Some ([''get_time'', ''get_month_name'', ''format'', ''is_PM''], Failed e6 ''is_PM''))
   \<and> (invoke (workflow c) s0 = Some (tr, Completed sf) \<longrightarrow>
        (\<exists>t1 t2 t3. get_time_node c s0 = Inr t1 \<and> get_month_name_node c t1 = Inr t2
           \<and> format_response c t2 = Inr t3
           \<and> (add_AM t3 = Inr sf \<or> add_PM t3 = Inr sf)))
   \<and> (invoke (workflow c) s0 = Some (tr', Failed e' n) \<longrightarrow>
        tr' \<noteq> [] \<and> last tr' = n \<and> distinct tr'
        \<and> (n = ''get_time'' \<or> n = ''get_month_name''))"
proof -
  have p1: "running g s state trace = Some (trace @ [s], Failed e s)"
    if "s \<noteq> END" "map_of (nodes g) s = Some step" "step state = Inl e"
    using that by (simp add: running_step)
  have p2: "invoke (workflow c) s0 = Some ([''get_time''], Failed e1 ''get_time'')"
    if "get_time_node c s0 = Inl e1"
    using that by (simp add: invoke_workflow)
  have p3: "invoke (workflow c) s0
          = Some ([''get_time'', ''get_month_name''], Failed e2 ''get_month_name'')"
    if "get_time_node c s0 = Inr s1" "get_month_name_node c s1 = Inl e2"
    using that by (simp add: invoke_workflow after_get_time_def)
  have p4: "invoke (workflow c) s0
          = Some ([''get_time'', ''get_month_name'', ''format''], Failed e3 ''format'')"
    if "get_time_node c s0 = Inr s1" "get_month_name_node c s1 = Inr s2"
      "format_response c s2 = Inl e3"
    using that by (simp add: invoke_workflow after_get_time_def)
  have p5: "invoke (workflow c) s0
          = Some ([''get_time'', ''get_month_name'', ''format''], Failed e4 ''format'')"
    if "get_time_node c s0 = Inr s1" "get_month_name_node c s1 = Inr s2"
      "format_response c s2 = Inr s3" "is_AM_or_PM s3 = Inl e4"
    using that by (simp add: invoke_workflow after_get_time_def after_format_def)
  have p6: "invoke (workflow c) s0
          = Some ([''get_time'', ''get_month_name'', ''format'', ''is_AM''], Failed e5 ''is_AM'')"
    if "get_time_node c s0 = Inr s1" "get_month_name_node c s1 = Inr s2"
      "format_response c s2 = Inr s3" "is_AM_or_PM s3 = Inr ''is_AM''" "add_AM s3 = Inl e5"
    using that
    by (simp add: invoke_workflow after_get_time_def after_format_def after_branch_def)
  have p7: "invoke (workflow c) s0
          = Some ([''get_time'', ''get_month_name'', ''format'', ''is_PM''], Failed e6 ''is_PM'')"
    if "get_time_node c s0 = Inr s1" "get_month_name_node c s1 = Inr s2"
      "format_response c s2 = Inr s3" "is_AM_or_PM s3 = Inr ''is_PM''" "add_PM s3 = Inl e6"
    using that
    by (simp add: invoke_workflow after_get_time_def after_format_def after_branch_def)
  have p8: "\<exists>t1 t2 t3. get_time_node c s0 = Inr t1 \<and> get_month_name_node c t1 = Inr t2
           \<and> format_response c t2 = Inr t3
           \<and> (add_AM t3 = Inr sf \<or> add_PM t3 = Inr sf)"
    if "invoke (workflow c) s0 = Some (tr, Completed sf)"
    using invoke_workflow_outcome[OF that] by auto
  have p9: "tr' \<noteq> [] \<and> last tr' = n \<and> distinct tr'
        \<and> (n = ''get_time'' \<or> n = ''get_month_name'')"
    if failed: "invoke (workflow c) s0 = Some (tr', Failed e' n)"
  proof -
    from invoke_workflow_outcome[OF failed] consider
        (gt) "tr' = [''get_time'']" "n = ''get_time''"
      | (gm) "tr' = [''get_time'', ''get_month_name'']" "n = ''get_month_name''"
      | (fmt) t1 t2 err where "get_time_node c s0 = Inr t1" "get_month_name_node c t1 = Inr t2"
          "format_response c t2 = Inl err"
      by auto
    then show ?thesis
    proof cases
      case gt
      then show ?thesis by simp
    next
      case gm
      then show ?thesis by simp
    next
      case fmt
      from format_response_reached[OF fmt(1,2)] fmt(3) show ?thesis by simp
    qed
  qed
  from p1 p2 p3 p4 p5 p6 p7 p8 p9 show ?thesis by blast
qed

theorem fatal_propagation_witness:
  "running (workflow (stub 9)) ''format'' config []
     = Some ([''format''], Failed (KeyError ''time_data'') ''format'')
   \<and> invoke (workflow unreachable_stub) config
     = Some ([''get_time''], Failed (CollaboratorError ''MaxRetryError'') ''get_time'')
   \<and> invoke (workflow month_agent_down_stub) config
     = Some ([''get_time'', ''get_month_name''],
             Failed (CollaboratorError ''ModelHTTPError'') ''get_month_name'')
   \<and> (\<exists>t1 t2 t3. get_time_node (stub 9) config = Inr t1
          \<and> get_month_name_node (stub 9) t1 = Inr t2
          \<and> format_response (stub 9) t2 = Inr t3
          \<and> (add_AM t3 = Inr (stub_final 9) \<or> add_PM t3 = Inr (stub_final 9)))
   \<and> last [''get_time'', ''get_month_name''] = ''get_month_name''
   \<and> distinct [''get_time'', ''get_month_name'']"
proof -
  have a: "running (workflow (stub 9)) ''format'' config []
     = Some ([''format''], Failed (KeyError ''time_data'') ''format'')"
    using fatal_propagation[of "''format''" "workflow (stub 9)" "format_response (stub 9)"
        config "KeyError ''time_data''" "[]"]
    by (simp add: nodes_workflow END_def format_response_config)
  have b: "invoke (workflow unreachable_stub) config
     = Some ([''get_time''], Failed (CollaboratorError ''MaxRetryError'') ''get_time'')"
    using fatal_propagation[of _ _ _ _ _ _ unreachable_stub config
        "CollaboratorError ''MaxRetryError''"]
    by (simp add: unreachable_get_time_node)
  have c: "invoke (workflow month_agent_down_stub) config
     = Some ([''get_time'', ''get_month_name''],
             Failed (CollaboratorError ''ModelHTTPError'') ''get_month_name'')"
    using fatal_propagation[of _ _ _ _ _ _ month_agent_down_stub config _
        "stub_state1 9" "CollaboratorError ''ModelHTTPError''"]
    by (simp add: month_agent_down_steps)
  have d: "\<exists>t1 t2 t3. get_time_node (stub 9) config = Inr t1
          \<and> get_month_name_node (stub 9) t1 = Inr t2
          \<and> format_response (stub 9) t2 = Inr t3
          \<and> (add_AM t3 = Inr (stub_final 9) \<or> add_PM t3 = Inr (stub_final 9))"
    using fatal_propagation[of _ _ _ _ _ _ "stub 9" config _ _ _ _ _ _ _ _ _
        "[''get_time'', ''get_month_name'', ''format'', ''is_AM'']" "stub_final 9"]
    by (simp add: stub_invoke)
  from c fatal_propagation[of _ _ _ _ _ _ month_agent_down_stub config _ _ _ _ _ _ _ _ _ _ _
        "[''get_time'', ''get_month_name'']" "CollaboratorError ''ModelHTTPError''"
        "''get_month_name''"]
  have e: "last [''get_time'', ''get_month_name''] = ''get_month_name''
           \<and> distinct [''get_time'', ''get_month_name'']"
    by simp
  from a b c d e show ?thesis by blast
qed

text \<open>
  C3. Every run of the graph of \<^verbatim>\<open>main\<close> returns, and its trace is a prefix of one
  of the two paths of the graph; in particular, in every successfully completed run
  the trace is \<open>get_time, get_month_name, format\<close> followed by \<open>is_AM\<close> or by
  \<open>is_PM\<close>, so each step name occurs in it at most once.
\<close>

theorem single_execution:
  "(\<exists>tr r. invoke (workflow c) s0 = Some (tr, r))
   \<and> (invoke (workflow c) s0 = Some (tr, Completed sf) \<longrightarrow>
        (tr = [''get_time'', ''get_month_name'', ''format'', ''is_AM'']
         \<or> tr = [''get_time'', ''get_month_name'', ''format'', ''is_PM''])
        \<and> distinct tr \<and> (\<forall>n. count_list tr n \<le> 1))"
proof -
  have "\<exists>tr r. invoke (workflow c) s0 = Some (tr, r)"
    by (simp add: invoke_workflow)
  moreover have "(tr = [''get_time'', ''get_month_name'', ''format'', ''is_AM'']
         \<or> tr = [''get_time'', ''get_month_name'', ''format'', ''is_PM''])
        \<and> distinct tr \<and> (\<forall>n. count_list tr n \<le> 1)"
    if "invoke (workflow c) s0 = Some (tr, Completed sf)"
    using invoke_workflow_outcome[OF that] by auto
  ultimately show ?thesis by blast
qed

theorem single_execution_witness:
  "invoke (workflow (stub 9)) config
     = Some ([''get_time'', ''get_month_name'', ''format'', ''is_AM''], Completed (stub_final 9))
   \<and> distinct [''get_time'', ''get_month_name'', ''format'', ''is_AM'']
   \<and> (\<forall>n. count_list [''get_time'', ''get_month_name'', ''format'', ''is_AM''] n \<le> 1)"
  using single_execution[of "stub 9" config
      "[''get_time'', ''get_month_name'', ''format'', ''is_AM'']" "stub_final 9"]
  by (simp add: stub_invoke)


text \<open>
  C4. Each step leaves every slot it does not write as it was: after
  \<open>get_time_node\<close> every slot other than \<open>time_data\<close> and \<open>utc_offset\<close> reads as
  before, after \<open>get_month_name_node\<close> every slot other than \<open>month_name\<close> and
  \<open>month_emoji\<close>, and after \<open>format_response\<close>, \<open>add_AM\<close> and \<open>add_PM\<close> every slot
  other than \<open>final_answer\<close>. A slot that was absent stays absent, one that was
  present keeps its value.
\<close>

theorem state_additivity:
  "(get_time_node c s1 = Inr s1' \<longrightarrow>
      (\<forall>k. k \<notin> {''time_data'', ''utc_offset''} \<longrightarrow> map_of s1' k = map_of s1 k))
   \<and> (get_month_name_node c s2 = Inr s2' \<longrightarrow>
      (\<forall>k. k \<notin> {''month_name'', ''month_emoji''} \<longrightarrow> map_of s2' k = map_of s2 k))
   \<and> (format_response c s3 = Inr s3' \<longrightarrow>
      (\<forall>k. k \<noteq> ''final_answer'' \<longrightarrow> map_of s3' k = map_of s3 k))
   \<and> (add_AM s4 = Inr s4' \<longrightarrow>
      (\<forall>k. k \<noteq> ''final_answer'' \<longrightarrow> map_of s4' k = map_of s4 k))
   \<and> (add_PM s5 = Inr s5' \<longrightarrow>
      (\<forall>k. k \<noteq> ''final_answer'' \<longrightarrow> map_of s5' k = map_of s5 k))"
proof -
  have "map_of s1' k = map_of s1 k"
    if "get_time_node c s1 = Inr s1'" "k \<notin> {''time_data'', ''utc_offset''}" for k
    using get_time_node_Inr[OF that(1)] that(2) by (auto simp: map_of_setitem)
  moreover have "map_of s2' k = map_of s2 k"
    if "get_month_name_node c s2 = Inr s2'" "k \<notin> {''month_name'', ''month_emoji''}" for k
    using get_month_name_node_Inr[OF that(1)] that(2) by (auto simp: map_of_setitem)
  moreover have "map_of s3' k = map_of s3 k"
    if "format_response c s3 = Inr s3'" "k \<noteq> ''final_answer''" for k
    using format_response_Inr[OF that(1)] that(2) by (auto simp: map_of_setitem)
  moreover have "map_of s4' k = map_of s4 k"
    if "add_AM s4 = Inr s4'" "k \<noteq> ''final_answer''" for k
  proof -
    from add_AM_Inr[OF that(1)] obtain d where "map_of s4 ''final_answer'' = Some (PDict d)"
      by blast
    from add_flags_PDict(1)[OF this] that show ?thesis
      by (auto simp: map_of_setitem)
  qed
  moreover have "map_of s5' k = map_of s5 k"
    if "add_PM s5 = Inr s5'" "k \<noteq> ''final_answer''" for k
  proof -
    from add_PM_Inr[OF that(1)] obtain d where "map_of s5 ''final_answer'' = Some (PDict d)"
      by blast
    from add_flags_PDict(2)[OF this] that show ?thesis
      by (auto simp: map_of_setitem)
  qed
  ultimately show ?thesis by blast
qed


theorem state_additivity_witness:
  "get_time_node (stub 9) config = Inr (stub_state1 9)
   \<and> map_of (stub_state1 9) ''timezone'' = map_of config ''timezone''
   \<and> get_month_name_node (stub 9) (stub_state1 9) = Inr (stub_state2 9)
   \<and> map_of (stub_state2 9) ''time_data'' = map_of (stub_state1 9) ''time_data''
   \<and> format_response (stub 9) (stub_state2 9) = Inr (stub_state3 9)
   \<and> map_of (stub_state3 9) ''month_name'' = map_of (stub_state2 9) ''month_name''
   \<and> add_AM (stub_state3 9) = Inr (stub_final 9)
   \<and> map_of (stub_final 9) ''utc_offset'' = map_of (stub_state3 9) ''utc_offset''
   \<and> add_PM (stub_state3 12) = Inr (stub_final 12)
   \<and> map_of (stub_final 12) ''time_data'' = map_of (stub_state3 12) ''time_data''"
  using state_additivity[of "stub 9" config "stub_state1 9" "stub_state1 9" "stub_state2 9"
      "stub_state2 9" "stub_state3 9" "stub_state3 9" "stub_final 9"
      "stub_state3 12" "stub_final 12"]
  by (simp add: stub_steps stub_add_flags)

text \<open>
  C5. On every state in which \<open>time_data\<close> holds a datetime, and so on every state
  that reaches the branch of the graph of \<^verbatim>\<open>main\<close> (the three steps before it have
  succeeded), \<open>is_AM_or_PM\<close> does not raise and returns \<open>is_AM\<close> or \<open>is_PM\<close>; the
  label it returns is one of the labels declared for the branch of \<open>format\<close> and
  names a registered step.
\<close>

theorem decision_total:
  "(map_of s ''time_data'' = Some (PDatetime d) \<longrightarrow>
      (\<exists>l. is_AM_or_PM s = Inr l \<and> (l = ''is_AM'' \<or> l = ''is_PM'')))
   \<and> (get_time_node c s0 = Inr s1 \<longrightarrow> get_month_name_node c s1 = Inr s2 \<longrightarrow>
        format_response c s2 = Inr s3 \<longrightarrow>
        (\<exists>l labels step.
            is_AM_or_PM s3 = Inr l \<and> (l = ''is_AM'' \<or> l = ''is_PM'')
          \<and> map_of (conditional_edges (workflow c)) ''format'' = Some (is_AM_or_PM, labels)
          \<and> l \<in> set labels
          \<and> map_of (nodes (workflow c)) l = Some step
          \<and> resolve (workflow c) ''format'' s3 = Inr l))"
proof -
  have a: "\<exists>l. is_AM_or_PM s = Inr l \<and> (l = ''is_AM'' \<or> l = ''is_PM'')"
    if "map_of s ''time_data'' = Some (PDatetime d)" for s d
    by (simp add: is_AM_or_PM_datetime[OF that])
  have "\<exists>l labels step.
            is_AM_or_PM s3 = Inr l \<and> (l = ''is_AM'' \<or> l = ''is_PM'')
          \<and> map_of (conditional_edges (workflow c)) ''format'' = Some (is_AM_or_PM, labels)
          \<and> l \<in> set labels
          \<and> map_of (nodes (workflow c)) l = Some step
          \<and> resolve (workflow c) ''format'' s3 = Inr l"
    if "get_time_node c s0 = Inr s1" "get_month_name_node c s1 = Inr s2"
       "format_response c s2 = Inr s3"
  proof -
    from reach_branch[OF that] obtain d' where "map_of s3 ''time_data'' = Some (PDatetime d')"
      by blast
    from a[OF this] obtain l where l: "is_AM_or_PM s3 = Inr l" "l = ''is_AM'' \<or> l = ''is_PM''"
      by blast
    have ce: "map_of (conditional_edges (workflow c)) ''format''
                = Some (is_AM_or_PM, [''is_AM'', ''is_PM''])"
      by (simp add: workflow_def)
    from l(2) have "l \<in> set [''is_AM'', ''is_PM'']" by auto
    moreover from l(2) have "\<exists>step. map_of (nodes (workflow c)) l = Some step"
      by (auto simp: nodes_workflow)
    ultimately show ?thesis using l ce by (auto simp: resolve_format)
  qed
  with a show ?thesis by blast
qed

theorem decision_total_witness:
  "map_of (stub_state3 12) ''time_data'' = Some (PDatetime (stub_datetime 12))
   \<and> (\<exists>l. is_AM_or_PM (stub_state3 12) = Inr l \<and> (l = ''is_AM'' \<or> l = ''is_PM''))
   \<and> (\<exists>l labels step.
          is_AM_or_PM (stub_state3 12) = Inr l \<and> (l = ''is_AM'' \<or> l = ''is_PM'')
        \<and> map_of (conditional_edges (workflow (stub 12))) ''format'' = Some (is_AM_or_PM, labels)
        \<and> l \<in> set labels
        \<and> map_of (nodes (workflow (stub 12))) l = Some step
        \<and> resolve (workflow (stub 12)) ''format'' (stub_state3 12) = Inr l)"
  using decision_total[of "stub_state3 12" "stub_datetime 12" "stub 12" config "stub_state1 12"
      "stub_state2 12" "stub_state3 12"]
  by (simp add: stub_steps stub_state3_time_data)

lemma schema_keys:
  "''get_time_prompt'' \<in> AgentState_schema" "''timezone'' \<in> AgentState_schema"
  "''time_data'' \<in> AgentState_schema" "''utc_offset'' \<in> AgentState_schema"
  "''month_name'' \<in> AgentState_schema" "''month_emoji'' \<in> AgentState_schema"
  "''final_answer'' \<in> AgentState_schema"
  by (simp_all add: AgentState_schema_def)

lemma setitem_schema:
  assumes "k \<in> AgentState_schema" and "fst ` set s \<subseteq> AgentState_schema"
  shows "fst ` set (setitem s k v) \<subseteq> AgentState_schema"
  using assms by (simp add: keys_setitem)

text \<open>
  C6. No step introduces a slot outside the schema: if the keys of the input state
  are among the seven keys declared by \<open>AgentState\<close>, so are the keys of the state
  each step returns. (The keys \<open>AM\<close> and \<open>PM\<close> go into the dictionary held by
  \<open>final_answer\<close>, not into the state.)
\<close>

theorem schema_closed:
  "(fst ` set s1 \<subseteq> AgentState_schema \<longrightarrow> get_time_node c s1 = Inr s1' \<longrightarrow>
      fst ` set s1' \<subseteq> AgentState_schema)
   \<and> (fst ` set s2 \<subseteq> AgentState_schema \<longrightarrow> get_month_name_node c s2 = Inr s2' \<longrightarrow>
      fst ` set s2' \<subseteq> AgentState_schema)
   \<and> (fst ` set s3 \<subseteq> AgentState_schema \<longrightarrow> format_response c s3 = Inr s3' \<longrightarrow>
      fst ` set s3' \<subseteq> AgentState_schema)
   \<and> (fst ` set s4 \<subseteq> AgentState_schema \<longrightarrow> add_AM s4 = Inr s4' \<longrightarrow>
      fst ` set s4' \<subseteq> AgentState_schema)
   \<and> (fst ` set s5 \<subseteq> AgentState_schema \<longrightarrow> add_PM s5 = Inr s5' \<longrightarrow>
      fst ` set s5' \<subseteq> AgentState_schema)"
proof -
  have a: "fst ` set s1' \<subseteq> AgentState_schema"
    if "fst ` set s1 \<subseteq> AgentState_schema" "get_time_node c s1 = Inr s1'"
  proof -
    from get_time_node_Inr[OF that(2)] obtain d uo
      where "s1' = setitem (setitem s1 ''time_data'' (PDatetime d)) ''utc_offset'' (PStr uo)"
      by blast
    with that(1) show ?thesis by (simp add: setitem_schema schema_keys)
  qed
  have b: "fst ` set s2' \<subseteq> AgentState_schema"
    if "fst ` set s2 \<subseteq> AgentState_schema" "get_month_name_node c s2 = Inr s2'"
  proof -
    from get_month_name_node_Inr[OF that(2)] obtain mn me
      where "s2' = setitem (setitem s2 ''month_name'' (PStr mn)) ''month_emoji'' (PStr me)"
      by blast
    with that(1) show ?thesis by (simp add: setitem_schema schema_keys)
  qed
  have c: "fst ` set s3' \<subseteq> AgentState_schema"
    if "fst ` set s3 \<subseteq> AgentState_schema" "format_response c s3 = Inr s3'"
  proof -
    from format_response_Inr[OF that(2)] obtain fa
      where "s3' = setitem s3 ''final_answer'' (PDict fa)"
      by blast
    with that(1) show ?thesis by (simp add: setitem_schema schema_keys)
  qed
  have d: "fst ` set s4' \<subseteq> AgentState_schema"
    if "fst ` set s4 \<subseteq> AgentState_schema" "add_AM s4 = Inr s4'"
  proof -
    from add_AM_Inr[OF that(2)] obtain d where "map_of s4 ''final_answer'' = Some (PDict d)"
      by blast
    from add_flags_PDict(1)[OF this] that show ?thesis
      by (auto simp add: setitem_schema schema_keys)
  qed
  have e: "fst ` set s5' \<subseteq> AgentState_schema"
    if "fst ` set s5 \<subseteq> AgentState_schema" "add_PM s5 = Inr s5'"
  proof -
    from add_PM_Inr[OF that(2)] obtain d where "map_of s5 ''final_answer'' = Some (PDict d)"
      by blast
    from add_flags_PDict(2)[OF this] that show ?thesis
      by (auto simp add: setitem_schema schema_keys)
  qed
  from a b c d e show ?thesis by blast
qed

lemma stub_keys:
  "fst ` set config \<subseteq> AgentState_schema"
  "fst ` set (stub_state1 h) \<subseteq> AgentState_schema"
  "fst ` set (stub_state2 h) \<subseteq> AgentState_schema"
  "fst ` set (stub_state3 h) \<subseteq> AgentState_schema"
  "fst ` set (stub_final h) \<subseteq> AgentState_schema"
  by (simp_all add: config_def stub_state1_def stub_state2_def stub_state3_def stub_final_def
      schema_keys)

theorem schema_closed_witness:
  "fst ` set config \<subseteq> AgentState_schema
   \<and> get_time_node (stub 9) config = Inr (stub_state1 9)
   \<and> fst ` set (stub_state1 9) \<subseteq> AgentState_schema
   \<and> get_month_name_node (stub 9) (stub_state1 9) = Inr (stub_state2 9)
   \<and> fst ` set (stub_state2 9) \<subseteq> AgentState_schema
   \<and> format_response (stub 9) (stub_state2 9) = Inr (stub_state3 9)
   \<and> fst ` set (stub_state3 9) \<subseteq> AgentState_schema
   \<and> add_AM (stub_state3 9) = Inr (stub_final 9)
   \<and> fst ` set (stub_final 9) \<subseteq> AgentState_schema
   \<and> add_PM (stub_state3 12) = Inr (stub_final 12)
   \<and> fst ` set (stub_final 12) \<subseteq> AgentState_schema"
  using schema_closed[of config "stub 9" "stub_state1 9" "stub_state1 9" "stub_state2 9"
      "stub_state2 9" "stub_state3 9" "stub_state3 9" "stub_final 9"
      "stub_state3 12" "stub_final 12"]
  by (simp add: stub_steps stub_add_flags stub_keys)

text \<open>
  C7. The label \<open>is_AM_or_PM\<close> returns is a function of the content of the state:
  two states with the same content (the same value, or none, under every key), in
  whatever order the keys were inserted, get the same result, and so do two states
  that agree on \<open>time_data\<close> alone. The function returns a label and nothing else,
  and the executor hands to the destination step the very state the decision was
  evaluated on.
\<close>

theorem branch_determinism:
  "(map_of s = map_of s' \<longrightarrow> is_AM_or_PM s = is_AM_or_PM s')
   \<and> (map_of t ''time_data'' = map_of t' ''time_data'' \<longrightarrow> is_AM_or_PM t = is_AM_or_PM t')
   \<and> (format_response c s2 = Inr s3 \<longrightarrow> is_AM_or_PM s3 = Inr l \<longrightarrow>
        running (workflow c) ''format'' s2 trace
          = running (workflow c) l s3 (trace @ [''format'']))"
proof -
  have td: "is_AM_or_PM t = is_AM_or_PM t'"
    if "map_of t ''time_data'' = map_of t' ''time_data''" for t t'
    using that by (simp add: is_AM_or_PM_def getitem_def)
  have eq: "is_AM_or_PM s = is_AM_or_PM s'" if "map_of s = map_of s'"
    by (rule td) (simp add: that)
  have run: "running (workflow c) ''format'' s2 trace
          = running (workflow c) l s3 (trace @ [''format''])"
    if "format_response c s2 = Inr s3" "is_AM_or_PM s3 = Inr l"
    using that by (simp add: running_step[OF _ nodes_workflow(3)] END_def resolve_format)
  show ?thesis
    using td[of t t'] eq run by blast
qed

theorem branch_determinism_witness:
  "map_of (stub_state3 9) ''time_data'' = map_of (stub_state1 9) ''time_data''
   \<and> is_AM_or_PM (stub_state3 9) = is_AM_or_PM (stub_state1 9)
   \<and> is_AM_or_PM (stub_state1 9) = Inr ''is_AM''
   \<and> map_of (stub_state3 9) = map_of (stub_state3 9)
   \<and> running (workflow (stub 9)) ''format'' (stub_state2 9) [''get_time'', ''get_month_name'']
       = running (workflow (stub 9)) ''is_AM'' (stub_state3 9)
           ([''get_time'', ''get_month_name''] @ [''format''])"
  using branch_determinism[of "stub_state3 9" "stub_state3 9" "stub_state3 9" "stub_state1 9"
      "stub 9" "stub_state2 9" "stub_state3 9" "''is_AM''" "[''get_time'', ''get_month_name'']"]
  by (simp add: stub_steps stub_decision)
     (simp add: stub_state3_def stub_state2_def stub_state1_def config_def)

lemma add_flags_absent:
  assumes "map_of s ''final_answer'' = None"
  shows "add_AM s = Inl (KeyError ''final_answer'')"
    and "add_PM s = Inl (KeyError ''final_answer'')"
  using assms by (simp_all add: add_AM_def add_PM_def set_final_answer_item_def getitem_def)

lemma add_flags_PNone:
  assumes "map_of s ''final_answer'' = Some PNone"
  shows "add_AM s = Inl TypeError" and "add_PM s = Inl TypeError"
  using assms by (simp_all add: add_AM_def add_PM_def set_final_answer_item_def getitem_def)

text \<open>
  C9. \<open>add_AM\<close> and \<open>add_PM\<close> need a dictionary in \<open>final_answer\<close>: on a state
  where the slot is missing they raise \<open>KeyError\<close>, where it holds \<open>None\<close> they raise
  \<open>TypeError\<close>. Whenever \<open>format_response\<close> succeeds, the state it returns holds a
  dictionary in \<open>final_answer\<close> and both \<open>add_AM\<close> and \<open>add_PM\<close> succeed on it. In
  every run of the graph of \<^verbatim>\<open>main\<close> whose trace contains \<open>is_AM\<close> or \<open>is_PM\<close>,
  that step is the fourth and last, \<open>format\<close> is the third, and the run completes.
\<close>

theorem final_answer_populated:
  "(map_of s ''final_answer'' = None \<longrightarrow>
      add_AM s = Inl (KeyError ''final_answer'') \<and> add_PM s = Inl (KeyError ''final_answer''))
   \<and> (map_of s' ''final_answer'' = Some PNone \<longrightarrow>
      add_AM s' = Inl TypeError \<and> add_PM s' = Inl TypeError)
   \<and> (format_response c s2 = Inr s3 \<longrightarrow>
      (\<exists>fa. map_of s3 ''final_answer'' = Some (PDict fa))
      \<and> (\<exists>sa. add_AM s3 = Inr sa) \<and> (\<exists>sp. add_PM s3 = Inr sp))
   \<and> (invoke (workflow c') s0 = Some (tr, r) \<longrightarrow> ''is_AM'' \<in> set tr \<or> ''is_PM'' \<in> set tr \<longrightarrow>
      (tr = [''get_time'', ''get_month_name'', ''format'', ''is_AM'']
       \<or> tr = [''get_time'', ''get_month_name'', ''format'', ''is_PM''])
      \<and> (\<exists>sf. r = Completed sf))"
proof -
  have p3: "(\<exists>fa. map_of s3 ''final_answer'' = Some (PDict fa))
      \<and> (\<exists>sa. add_AM s3 = Inr sa) \<and> (\<exists>sp. add_PM s3 = Inr sp)"
    if "format_response c s2 = Inr s3"
  proof -
    from format_response_Inr[OF that] obtain fa
      where "s3 = setitem s2 ''final_answer'' (PDict fa)" by blast
    then have fa: "map_of s3 ''final_answer'' = Some (PDict fa)"
      by (simp add: map_of_setitem)
    from add_flags_PDict[OF fa] fa show ?thesis by simp
  qed
  have p4: "(tr = [''get_time'', ''get_month_name'', ''format'', ''is_AM'']
       \<or> tr = [''get_time'', ''get_month_name'', ''format'', ''is_PM''])
      \<and> (\<exists>sf. r = Completed sf)"
    if "invoke (workflow c') s0 = Some (tr, r)" "''is_AM'' \<in> set tr \<or> ''is_PM'' \<in> set tr"
    using invoke_workflow_outcome[OF that(1)] that(2) by auto
  from add_flags_absent[of s] add_flags_PNone[of s'] p3 p4 show ?thesis by blast
qed

theorem final_answer_populated_witness:
  "map_of config ''final_answer'' = None
   \<and> add_AM config = Inl (KeyError ''final_answer'')
   \<and> add_PM config = Inl (KeyError ''final_answer'')
   \<and> map_of [(''final_answer'', PNone)] ''final_answer'' = Some PNone
   \<and> add_AM [(''final_answer'', PNone)] = Inl TypeError
   \<and> add_PM [(''final_answer'', PNone)] = Inl TypeError
   \<and> format_response (stub 9) (stub_state2 9) = Inr (stub_state3 9)
   \<and> (\<exists>fa. map_of (stub_state3 9) ''final_answer'' = Some (PDict fa))
   \<and> (\<exists>sa. add_AM (stub_state3 9) = Inr sa) \<and> (\<exists>sp. add_PM (stub_state3 9) = Inr sp)
   \<and> invoke (workflow (stub 9)) config
       = Some ([''get_time'', ''get_month_name'', ''format'', ''is_AM''], Completed (stub_final 9))"
  using final_answer_populated[of config "[(''final_answer'', PNone)]" "stub 9" "stub_state2 9"
      "stub_state3 9" "stub 9" config "[''get_time'', ''get_month_name'', ''format'', ''is_AM'']"
      "Completed (stub_final 9)"]
  by (simp add: stub_steps stub_invoke) (simp add: config_def)

text \<open>
  C10. In the final state of every successfully completed run of the graph of
  \<^verbatim>\<open>main\<close>, \<open>final_answer\<close> holds a dictionary with a boolean under \<open>AM\<close> and a
  boolean under \<open>PM\<close>, and the one is the negation of the other.
\<close>

theorem am_xor_pm:
  assumes "invoke (workflow c) s0 = Some (tr, Completed sf)"
  shows "\<exists>fa a p. map_of sf ''final_answer'' = Some (PDict fa)
           \<and> map_of fa ''AM'' = Some (PBool a) \<and> map_of fa ''PM'' = Some (PBool p)
           \<and> a = (\<not> p)"
proof -
  from invoke_workflow_outcome[OF assms]
  consider (am) s3 where "add_AM s3 = Inr sf" | (pm) s3 where "add_PM s3 = Inr sf"
    by auto
  then show ?thesis
  proof cases
    case am
    from add_AM_Inr[OF am] obtain d where d: "map_of s3 ''final_answer'' = Some (PDict d)"
      by blast
    from add_flags_PDict(1)[OF d] am
    have "sf = setitem (setitem s3 ''final_answer'' (PDict (setitem d ''AM'' (PBool True))))
            ''final_answer'' (PDict (setitem (setitem d ''AM'' (PBool True)) ''PM'' (PBool False)))"
      by simp
    then have "map_of sf ''final_answer''
                 = Some (PDict (setitem (setitem d ''AM'' (PBool True)) ''PM'' (PBool False)))"
      by (simp add: map_of_setitem)
    moreover have "map_of (setitem (setitem d ''AM'' (PBool True)) ''PM'' (PBool False)) ''AM''
                     = Some (PBool True)"
      and "map_of (setitem (setitem d ''AM'' (PBool True)) ''PM'' (PBool False)) ''PM''
                     = Some (PBool False)"
      by (simp_all add: map_of_setitem)
    ultimately show ?thesis by blast
  next
    case pm
    from add_PM_Inr[OF pm] obtain d where d: "map_of s3 ''final_answer'' = Some (PDict d)"
      by blast
    from add_flags_PDict(2)[OF d] pm
    have "sf = setitem (setitem s3 ''final_answer'' (PDict (setitem d ''AM'' (PBool False))))
            ''final_answer'' (PDict (setitem (setitem d ''AM'' (PBool False)) ''PM'' (PBool True)))"
      by simp
    then have "map_of sf ''final_answer''
                 = Some (PDict (setitem (setitem d ''AM'' (PBool False)) ''PM'' (PBool True)))"
      by (simp add: map_of_setitem)
    moreover have "map_of (setitem (setitem d ''AM'' (PBool False)) ''PM'' (PBool True)) ''AM''
                     = Some (PBool False)"
      and "map_of (setitem (setitem d ''AM'' (PBool False)) ''PM'' (PBool True)) ''PM''
                     = Some (PBool True)"
      by (simp_all add: map_of_setitem)
    ultimately show ?thesis by blast
  qed
qed

theorem am_xor_pm_witness:
  "invoke (workflow (stub 12)) config
     = Some ([''get_time'', ''get_month_name'', ''format'', ''is_PM''], Completed (stub_final 12))
   \<and> (\<exists>fa a p. map_of (stub_final 12) ''final_answer'' = Some (PDict fa)
           \<and> map_of fa ''AM'' = Some (PBool a) \<and> map_of fa ''PM'' = Some (PBool p)
           \<and> a = (\<not> p))"
proof -
  have run: "invoke (workflow (stub 12)) config
     = Some ([''get_time'', ''get_month_name'', ''format'', ''is_PM''], Completed (stub_final 12))"
    by (simp add: stub_invoke)
  from am_xor_pm[OF run] run show ?thesis by blast
qed











end
